theory Spec2Isabelle
  imports Complex_Main "HOL-Library.Multiset"
begin

section \<open>Conventions of the embedding\<close>

text \<open>
  The Python sources are \<^verbatim>\<open>backend/reports/processor.py\<close> (class
  \<^verbatim>\<open>ReportProcessor\<close>) and \<^verbatim>\<open>backend/aqi/stream.py\<close> (class
  \<^verbatim>\<open>AQIStreamSimulator\<close>).

  \<^item> Python floats are idealised as \<^typ>\<open>real\<close>: comparisons, \<^verbatim>\<open>min\<close>, \<^verbatim>\<open>max\<close>
    and the thresholds are exact on them; the rounding error of float addition and
    multiplication is not modelled.
  \<^item> Every call into \<^verbatim>\<open>random\<close>, \<^verbatim>\<open>uuid\<close> and \<^verbatim>\<open>datetime.now\<close> is an explicit
    argument (a draw), in the order in which the source makes the calls.
  \<^item> The status and severity strings of the source are closed sets of literals and are
    datatypes here; \<open>status_name\<close> and \<open>severity_name\<close> give the literal.
  \<^item> The instance attributes \<^verbatim>\<open>self.reports\<close> and \<^verbatim>\<open>self.validation_queue\<close> are the
    record \<open>processor\<close>, passed in and returned updated.
  \<^item> \<^verbatim>\<open>raise ValueError(...)\<close> is a value \<open>Inl e\<close> of the sum type.
\<close>

section \<open>Library functions of Python used by the sources\<close>

text \<open>\<^verbatim>\<open>random.choice(seq)\<close> is \<^verbatim>\<open>seq[randbelow(len(seq))]\<close>; the draw \<open>k\<close> is reduced
  modulo the length, so that every natural number is a draw.\<close>

definition random_choice :: "'a list \<Rightarrow> nat \<Rightarrow> 'a" where
  "random_choice xs k = xs ! (k mod length xs)"

text \<open>\<^verbatim>\<open>random.randint(a, b)\<close>: an integer of \<open>[a, b]\<close>, from the draw \<open>k\<close>.\<close>

definition randint :: "int \<Rightarrow> int \<Rightarrow> nat \<Rightarrow> int" where
  "randint a b k = a + int (k mod nat (b - a + 1))"

text \<open>\<^verbatim>\<open>round(x, 2)\<close>: the nearest multiple of 1/100, a tie going to the even one.\<close>

definition round_half_even :: "real \<Rightarrow> int" where
  "round_half_even y =
     (let f = \<lfloor>y\<rfloor>; d = y - of_int f
      in if d < 1 / 2 then f
         else if 1 / 2 < d then f + 1
         else if even f then f else f + 1)"

definition py_round2 :: "real \<Rightarrow> real" where
  "py_round2 x = of_int (round_half_even (x * 100)) / 100"

text \<open>\<^verbatim>\<open>int(x)\<close> on a float truncates towards zero.\<close>

definition py_int :: "real \<Rightarrow> int" where
  "py_int x = (if 0 \<le> x then \<lfloor>x\<rfloor> else \<lceil>x\<rceil>)"

section \<open>The report processor\<close>

subsection \<open>Data\<close>

datatype validation_status = Validating | Verified | NeedsReview | Rejected

fun status_name :: "validation_status \<Rightarrow> string" where
  "status_name Validating = ''validating''"
| "status_name Verified = ''verified''"
| "status_name NeedsReview = ''needs-review''"
| "status_name Rejected = ''rejected''"

text \<open>All three errors are \<^verbatim>\<open>ValueError\<close> in the source; the argument is the name that
  the message quotes.\<close>

datatype error = ReportNotFound string | CityNotFound string | InvalidRange string

text \<open>The submission, \<^verbatim>\<open>ReportSubmission.dict()\<close>. Of the dictionary
  \<^verbatim>\<open>yolo_result\<close> the processor reads the entry \<^verbatim>\<open>confidence\<close> only; it is kept as an
  association list of its numeric entries, \<open>None\<close> when the field is absent.\<close>

record report_data =
  in_image_data :: "string option"
  in_category :: string
  in_latitude :: real
  in_longitude :: real
  in_location_name :: string
  in_yolo_result :: "(string \<times> real) list option"
  in_timestamp :: string

record report =
  report_id :: string
  category :: string
  latitude :: real
  longitude :: real
  location_name :: string
  yolo_result :: "(string \<times> real) list option"
  submitted_at :: string
  validation_status :: validation_status
  validation_reason :: string
  confidence_score :: real
  verified_at :: "string option"
  reward_coins :: int

record processor =
  reports :: "string \<rightharpoonup> report"
  validation_queue :: "string list"

definition init_processor :: processor where
  "init_processor = \<lparr>reports = Map.empty, validation_queue = []\<rparr>"

text \<open>\<^verbatim>\<open>self.confidence_thresholds\<close>.\<close>

definition confidence_thresholds :: "(string \<times> real) list" where
  "confidence_thresholds = [(''high'', 0.75), (''medium'', 0.50), (''low'', 0.30)]"

definition threshold :: "string \<Rightarrow> real" where
  "threshold k = the (map_of confidence_thresholds k)"

record decision =
  d_status :: validation_status
  d_reason :: string
  d_confidence :: real

text \<open>The draws of one \<^verbatim>\<open>_make_validation_decision\<close> call: \<open>branch_u\<close> is the
  \<^verbatim>\<open>random.random()\<close> of the conditional expression, \<open>choice_k\<close> the index drawn by
  the \<^verbatim>\<open>random.choice\<close> inside it, \<open>hotspot_u\<close> the \<^verbatim>\<open>random.random()\<close> of
  \<^verbatim>\<open>_is_known_hotspot\<close>.\<close>

record decision_draws =
  branch_u :: real
  choice_k :: nat
  hotspot_u :: real

record submission_draws =
  id_timestamp :: string
  id_uuid :: string
  decision_rnd :: decision_draws
  time_k :: nat

record status_draws =
  completion_k :: nat
  location_u :: real
  now_iso :: string

record submission_result =
  res_report_id :: string
  res_status :: string
  res_validation_status :: validation_status
  res_estimated_verification_time :: int
  res_message :: string

record status_result =
  st_report_id :: string
  st_status :: validation_status
  st_category :: string
  st_location :: string
  st_submitted_at :: string
  st_verified_at :: "string option"
  st_confidence_score :: real
  st_validation_reason :: string
  st_reward_coins :: int
  st_message :: string

subsection \<open>Private validation logic\<close>

definition is_known_hotspot :: "real \<Rightarrow> real \<Rightarrow> real \<Rightarrow> bool" where
  "is_known_hotspot lat lng u = (u < 0.3)"

definition make_validation_decision ::
  "string \<Rightarrow> real \<Rightarrow> real \<times> real \<Rightarrow> decision_draws \<Rightarrow> decision" where
  "make_validation_decision cat yolo_confidence location dr =
     (let (decision, reason, confidence) =
        (if threshold ''high'' \<le> yolo_confidence then
           ((if branch_u dr < 0.7
             then random_choice [Verified, NeedsReview] (choice_k dr)
             else NeedsReview),
            ''High AI confidence. Visual indicators strongly match reported category.'',
            yolo_confidence)
         else if threshold ''medium'' \<le> yolo_confidence then
           (NeedsReview,
            ''Moderate AI confidence. Requires additional verification for accuracy.'',
            yolo_confidence)
         else
           ((if branch_u dr < 0.6
             then random_choice [NeedsReview, Rejected] (choice_k dr)
             else Rejected),
            ''Low AI confidence. Visual conditions unclear or ambiguous.'',
            yolo_confidence));
        (lat, lng) = location;
        (reason, confidence) =
          (if is_known_hotspot lat lng (hotspot_u dr)
           then (reason @ '' Location matches known environmental concern area.'',
                 min 1.0 (confidence + 0.1))
           else (reason, confidence));
        initial_status = (if decision = Verified then Validating else decision)
      in \<lparr>d_status = initial_status, d_reason = reason,
          d_confidence = py_round2 confidence\<rparr>)"

definition simulate_validation_completion :: "report \<Rightarrow> nat \<Rightarrow> validation_status" where
  "simulate_validation_completion r k =
     (let confidence = confidence_score r
      in if 0.75 \<le> confidence then Verified
         else if 0.50 \<le> confidence then random_choice [Verified, NeedsReview] k
         else random_choice [NeedsReview, Rejected] k)"

definition calculate_reward :: "report \<Rightarrow> real \<Rightarrow> int" where
  "calculate_reward r u =
     (let base_reward = 10;
          confidence_bonus = (if 0.8 \<le> confidence_score r then 5 else 0);
          priority_categories = [''water'', ''construction''];
          category_bonus = (if category r \<in> set priority_categories then 5 else 0);
          location_bonus = (if u < 0.3 then 5 else 0);
          total = base_reward + confidence_bonus + category_bonus + location_bonus
      in total)"

definition estimate_verification_time :: "validation_status \<Rightarrow> nat \<Rightarrow> int" where
  "estimate_verification_time status k =
     (if status = Verified then randint 3 8 k
      else if status = NeedsReview then randint 10 30 k
      else randint 5 15 k)"

text \<open>The messages start with an emoji, written as its UTF-8 bytes. The default of
  \<^verbatim>\<open>messages.get\<close> is never taken: the four statuses are the keys.\<close>

fun get_status_message :: "validation_status \<Rightarrow> string" where
  "get_status_message Validating =
     [CHR 0xF0, CHR 0x9F, CHR 0x94, CHR 0x8D]
       @ '' AI validation in progress. This usually takes a few seconds.''"
| "get_status_message Verified =
     [CHR 0xE2, CHR 0x9C, CHR 0x85]
       @ '' Report verified! Your contribution helps monitor environmental conditions.''"
| "get_status_message NeedsReview =
     [CHR 0xE2, CHR 0x8F, CHR 0xB3]
       @ '' Report queued for expert review. This may take a few minutes.''"
| "get_status_message Rejected =
     [CHR 0xE2, CHR 0x9D, CHR 0x8C]
       @ '' Unable to verify this report. Consider resubmitting with clearer evidence.''"

text \<open>\<^verbatim>\<open>_generate_report_id\<close>: \<open>ts\<close> is \<^verbatim>\<open>datetime.now().strftime("%Y%m%d%H%M%S")\<close> and
  \<open>uid\<close> is \<^verbatim>\<open>str(uuid.uuid4())\<close>.\<close>

definition generate_report_id :: "string \<Rightarrow> string \<Rightarrow> string" where
  "generate_report_id ts uid = ''RPT-'' @ ts @ ''-'' @ take 8 uid"

subsection \<open>Submission and status\<close>

text \<open>The YOLO confidence of a submission: 0.0 unless \<^verbatim>\<open>yolo_result\<close> is truthy (not
  \<^verbatim>\<open>None\<close> and not the empty dictionary), and then
  \<^verbatim>\<open>yolo_result.get("confidence", 0.0)\<close>.\<close>

definition extract_yolo_confidence :: "report_data \<Rightarrow> real" where
  "extract_yolo_confidence rd =
     (case in_yolo_result rd of
        None \<Rightarrow> 0.0
      | Some [] \<Rightarrow> 0.0
      | Some (e # es) \<Rightarrow>
          (case map_of (e # es) ''confidence'' of None \<Rightarrow> 0.0 | Some c \<Rightarrow> c))"

definition process_submission ::
  "processor \<Rightarrow> report_data \<Rightarrow> submission_draws \<Rightarrow> submission_result \<times> processor" where
  "process_submission p rd dr =
     (let rid = generate_report_id (id_timestamp dr) (id_uuid dr);
          yolo_confidence = extract_yolo_confidence rd;
          validation_decision =
            make_validation_decision (in_category rd) yolo_confidence
              (in_latitude rd, in_longitude rd) (decision_rnd dr);
          report_record =
            \<lparr>report_id = rid,
             category = in_category rd,
             latitude = in_latitude rd,
             longitude = in_longitude rd,
             location_name = in_location_name rd,
             yolo_result = in_yolo_result rd,
             submitted_at = in_timestamp rd,
             validation_status = d_status validation_decision,
             validation_reason = d_reason validation_decision,
             confidence_score = d_confidence validation_decision,
             verified_at = None,
             reward_coins = 0\<rparr>;
          p1 = p\<lparr>reports := (reports p)(rid \<mapsto> report_record)\<rparr>;
          p2 = (if d_status validation_decision = NeedsReview
                then p1\<lparr>validation_queue := validation_queue p1 @ [rid]\<rparr>
                else p1);
          estimated_time =
            estimate_verification_time (d_status validation_decision) (time_k dr)
      in (\<lparr>res_report_id = rid,
           res_status = ''submitted'',
           res_validation_status = d_status validation_decision,
           res_estimated_verification_time = estimated_time,
           res_message = get_status_message (d_status validation_decision)\<rparr>,
          p2))"

text \<open>\<^verbatim>\<open>get_status\<close> mutates the stored record through the reference \<^verbatim>\<open>report\<close>; the
  model writes the updated record back into the map. The draw \<open>completion_k\<close> is read
  only when the stored status is \<^verbatim>\<open>validating\<close> and below 0.75, \<open>location_u\<close> and
  \<open>now_iso\<close> only when the status is \<^verbatim>\<open>verified\<close>.\<close>

definition get_status ::
  "processor \<Rightarrow> string \<Rightarrow> status_draws \<Rightarrow> error + status_result \<times> processor" where
  "get_status p rid dr =
     (case reports p rid of
        None \<Rightarrow> Inl (ReportNotFound rid)
      | Some report0 \<Rightarrow>
          (let status0 = validation_status report0;
               (status, report1) =
                 (if status0 = Validating
                  then (let s = simulate_validation_completion report0 (completion_k dr)
                        in (s, report0\<lparr>validation_status := s\<rparr>))
                  else (status0, report0));
               (reward, report2) =
                 (if status = Verified
                  then (let rw = calculate_reward report1 (location_u dr)
                        in (rw, report1\<lparr>reward_coins := rw,
                                         verified_at := Some (now_iso dr)\<rparr>))
                  else (0, report1))
           in Inr (\<lparr>st_report_id = rid,
                    st_status = status,
                    st_category = category report2,
                    st_location = location_name report2,
                    st_submitted_at = submitted_at report2,
                    st_verified_at = verified_at report2,
                    st_confidence_score = confidence_score report2,
                    st_validation_reason = validation_reason report2,
                    st_reward_coins = reward,
                    st_message = get_status_message status\<rparr>,
                   p\<lparr>reports := (reports p)(rid \<mapsto> report2)\<rparr>)))"

text \<open>Histories of calls, to speak about every state the processor can be in: a
  failing \<^verbatim>\<open>get_status\<close> raises before any write and leaves the state as it was.\<close>

datatype operation = Submit report_data submission_draws | GetStatus string status_draws

fun apply_operation :: "processor \<Rightarrow> operation \<Rightarrow> processor" where
  "apply_operation p (Submit rd dr) = snd (process_submission p rd dr)"
| "apply_operation p (GetStatus rid dr) =
     (case get_status p rid dr of Inl e \<Rightarrow> p | Inr (res, p') \<Rightarrow> p')"

definition run :: "operation list \<Rightarrow> processor" where
  "run ops = foldl apply_operation init_processor ops"

definition reward_invariant :: "processor \<Rightarrow> bool" where
  "reward_invariant p =
     (\<forall>rid r. reports p rid = Some r \<longrightarrow>
        (if validation_status r = Verified
         then 10 \<le> reward_coins r \<and> verified_at r \<noteq> None
         else reward_coins r = 0 \<and> verified_at r = None))"

text \<open>What one \<^verbatim>\<open>get_status\<close> call returns as status for a stored record, and the
  record it leaves in the store: the two assignments of the source, in its order.\<close>

definition resolved_status :: "report \<Rightarrow> status_draws \<Rightarrow> validation_status" where
  "resolved_status r dr =
     (if validation_status r = Validating
      then simulate_validation_completion r (completion_k dr)
      else validation_status r)"

definition report_after :: "report \<Rightarrow> status_draws \<Rightarrow> report" where
  "report_after r dr =
     (let r1 = (if validation_status r = Validating
                then r\<lparr>validation_status := resolved_status r dr\<rparr> else r)
      in if resolved_status r dr = Verified
         then r1\<lparr>reward_coins := calculate_reward r (location_u dr),
                 verified_at := Some (now_iso dr)\<rparr>
         else r1)"

subsection \<open>A concrete run\<close>

text \<open>A submission in the high confidence band and two status polls with different
  draws, used to evaluate the operations.\<close>

definition example_data :: report_data where
  "example_data =
     \<lparr>in_image_data = None, in_category = ''construction'', in_latitude = 28.6139,
      in_longitude = 77.2090, in_location_name = ''Delhi'',
      in_yolo_result = Some [(''confidence'', 0.87)],
      in_timestamp = ''2026-01-01T10:00:00''\<rparr>"

definition example_draws :: submission_draws where
  "example_draws =
     \<lparr>id_timestamp = ''20260101100000'',
      id_uuid = ''1a2b3c4d-0000-4000-8000-000000000000'',
      decision_rnd = \<lparr>branch_u = 0.3, choice_k = 0, hotspot_u = 0.5\<rparr>,
      time_k = 2\<rparr>"

text \<open>The same submission with a first draw outside the 70% branch.\<close>

definition review_draws :: submission_draws where
  "review_draws =
     example_draws\<lparr>decision_rnd := \<lparr>branch_u = 0.9, choice_k = 0, hotspot_u = 0.5\<rparr>\<rparr>"

text \<open>The record that the submission stores.\<close>

definition example_stored :: report where
  "example_stored =
     \<lparr>report_id = ''RPT-20260101100000-1a2b3c4d'', category = ''construction'',
      latitude = 28.6139, longitude = 77.2090, location_name = ''Delhi'',
      yolo_result = Some [(''confidence'', 0.87)],
      submitted_at = ''2026-01-01T10:00:00'', validation_status = Validating,
      validation_reason =
        ''High AI confidence. Visual indicators strongly match reported category.'',
      confidence_score = 0.87, verified_at = None, reward_coins = 0\<rparr>"

definition example_id :: string where
  "example_id = ''RPT-20260101100000-1a2b3c4d''"

definition first_poll :: status_draws where
  "first_poll = \<lparr>completion_k = 0, location_u = 0.1, now_iso = ''2026-01-01T10:00:05''\<rparr>"

definition second_poll :: status_draws where
  "second_poll = \<lparr>completion_k = 0, location_u = 0.9, now_iso = ''2026-01-01T10:00:09''\<rparr>"

section \<open>The AQI stream simulator\<close>

subsection \<open>Naive datetimes\<close>

text \<open>A \<^verbatim>\<open>datetime\<close> without time zone: the date as its proleptic Gregorian ordinal
  (\<^verbatim>\<open>toordinal()\<close>, day 1 is 0001-01-01, a Monday), and the time of day.
  \<^verbatim>\<open>datetime.now()\<close> is an argument of every operation that reads the clock; it is
  a present-day value, so that subtracting a week stays inside \<^verbatim>\<open>datetime\<close>'s range.\<close>

record datetime =
  dt_ordinal :: int
  dt_hour :: nat
  dt_minute :: nat
  dt_second :: nat
  dt_microsecond :: nat

definition weekday :: "datetime \<Rightarrow> nat" where
  "weekday t = nat ((dt_ordinal t + 6) mod 7)"

text \<open>\<^verbatim>\<open>t - timedelta(days=d, hours=h)\<close>.\<close>

definition minus_timedelta :: "datetime \<Rightarrow> int \<Rightarrow> int \<Rightarrow> datetime" where
  "minus_timedelta t d h =
     (let secs = int (dt_hour t) * 3600 + int (dt_minute t) * 60 + int (dt_second t)
                   - h * 3600;
          s = secs mod 86400
      in t\<lparr>dt_ordinal := dt_ordinal t - d + secs div 86400,
            dt_hour := nat (s div 3600),
            dt_minute := nat ((s mod 3600) div 60),
            dt_second := nat (s mod 60)\<rparr>)"

definition days_in_month :: "int list" where
  "days_in_month = [-1, 31, 28, 31, 30, 31, 30, 31, 31, 30, 31, 30, 31]"

definition days_before_month :: "int list" where
  "days_before_month = [-1, 0, 31, 59, 90, 120, 151, 181, 212, 243, 273, 304, 334]"

text \<open>The calendar date \<open>(year, month, day)\<close> of an ordinal, as the standard library
  computes it from the 400-, 100-, 4- and 1-year cycles.\<close>

definition ord2ymd :: "int \<Rightarrow> int \<times> nat \<times> nat" where
  "ord2ymd n0 =
     (let n = n0 - 1;
          n400 = n div 146097; n = n mod 146097;
          n100 = n div 36524; n = n mod 36524;
          n4 = n div 1461; n = n mod 1461;
          n1 = n div 365; n = n mod 365;
          year = n400 * 400 + 1 + n100 * 100 + n4 * 4 + n1
      in if n1 = 4 \<or> n100 = 4 then (year - 1, 12, 31)
         else
           (let leapyear = (n1 = 3 \<and> (n4 \<noteq> 24 \<or> n100 = 3));
                month = nat ((n + 50) div 32);
                preceding = days_before_month ! month
                              + (if 2 < month \<and> leapyear then 1 else 0)
            in if n < preceding
               then (let month' = month - 1;
                         preceding' = preceding
                           - (days_in_month ! month'
                                + (if month' = 2 \<and> leapyear then 1 else 0))
                     in (year, month', nat (n - preceding' + 1)))
               else (year, month, nat (n - preceding + 1))))"

definition two_digits :: "nat \<Rightarrow> string" where
  "two_digits n = [''0123456789'' ! ((n div 10) mod 10), ''0123456789'' ! (n mod 10)]"

definition month_abbr :: "string list" where
  "month_abbr = [''Jan'', ''Feb'', ''Mar'', ''Apr'', ''May'', ''Jun'',
                 ''Jul'', ''Aug'', ''Sep'', ''Oct'', ''Nov'', ''Dec'']"

text \<open>\<^verbatim>\<open>strftime("%H:%M")\<close> and \<^verbatim>\<open>strftime("%b %d")\<close>.\<close>

definition strftime_HM :: "datetime \<Rightarrow> string" where
  "strftime_HM t = two_digits (dt_hour t) @ '':'' @ two_digits (dt_minute t)"

definition strftime_bd :: "datetime \<Rightarrow> string" where
  "strftime_bd t =
     (case ord2ymd (dt_ordinal t) of
        (y, m, d) \<Rightarrow> month_abbr ! (m - 1) @ '' '' @ two_digits d)"

subsection \<open>Data\<close>

datatype severity =
  Good | Moderate | UnhealthySensitive | Unhealthy | VeryUnhealthy | Hazardous

fun severity_name :: "severity \<Rightarrow> string" where
  "severity_name Good = ''good''"
| "severity_name Moderate = ''moderate''"
| "severity_name UnhealthySensitive = ''unhealthy-sensitive''"
| "severity_name Unhealthy = ''unhealthy''"
| "severity_name VeryUnhealthy = ''very-unhealthy''"
| "severity_name Hazardous = ''hazardous''"

text \<open>The rank order of the severity levels, lowest first.\<close>

fun severity_rank :: "severity \<Rightarrow> nat" where
  "severity_rank Good = 0"
| "severity_rank Moderate = 1"
| "severity_rank UnhealthySensitive = 2"
| "severity_rank Unhealthy = 3"
| "severity_rank VeryUnhealthy = 4"
| "severity_rank Hazardous = 5"

record city_data =
  lat :: real
  lng :: real
  baseline_aqi :: real
  variance :: real
  seasonal_factor :: real

text \<open>\<^verbatim>\<open>self.cities\<close>: a dictionary, iterated in insertion order, so an association
  list in that order.\<close>

definition init_cities :: "(string \<times> city_data) list" where
  "init_cities =
     [(''Delhi'', \<lparr>lat = 28.6139, lng = 77.2090, baseline_aqi = 250, variance = 50,
                  seasonal_factor = 1.3\<rparr>),
      (''Mumbai'', \<lparr>lat = 19.0760, lng = 72.8777, baseline_aqi = 150, variance = 40,
                   seasonal_factor = 1.1\<rparr>),
      (''Bangalore'', \<lparr>lat = 12.9716, lng = 77.5946, baseline_aqi = 120, variance = 30,
                      seasonal_factor = 1.05\<rparr>),
      (''Chennai'', \<lparr>lat = 13.0827, lng = 80.2707, baseline_aqi = 110, variance = 35,
                    seasonal_factor = 1.1\<rparr>),
      (''Kolkata'', \<lparr>lat = 22.5726, lng = 88.3639, baseline_aqi = 180, variance = 45,
                    seasonal_factor = 1.2\<rparr>),
      (''Hyderabad'', \<lparr>lat = 17.3850, lng = 78.4867, baseline_aqi = 130, variance = 35,
                      seasonal_factor = 1.05\<rparr>),
      (''Pune'', \<lparr>lat = 18.5204, lng = 73.8567, baseline_aqi = 140, variance = 38,
                 seasonal_factor = 1.1\<rparr>),
      (''Ahmedabad'', \<lparr>lat = 23.0225, lng = 72.5714, baseline_aqi = 160, variance = 42,
                      seasonal_factor = 1.15\<rparr>),
      (''Lucknow'', \<lparr>lat = 26.8467, lng = 80.9462, baseline_aqi = 200, variance = 48,
                    seasonal_factor = 1.25\<rparr>),
      (''Jaipur'', \<lparr>lat = 26.9124, lng = 75.7873, baseline_aqi = 170, variance = 40,
                   seasonal_factor = 1.2\<rparr>)]"

record history_point =
  h_time :: string
  h_aqi :: int

record city_snapshot =
  c_name :: string
  c_lat :: real
  c_lng :: real
  c_aqi :: int
  c_severity :: severity

subsection \<open>Private helper methods\<close>

text \<open>\<^verbatim>\<open>random.gauss(mu, sigma)\<close> is \<^verbatim>\<open>mu + z * sigma\<close> for a standard normal sample
  \<open>z\<close>, the draw.\<close>

definition gauss :: "real \<Rightarrow> real \<Rightarrow> real \<Rightarrow> real" where
  "gauss mu sigma z = mu + z * sigma"

definition calculate_realistic_aqi :: "city_data \<Rightarrow> datetime \<Rightarrow> real \<Rightarrow> real" where
  "calculate_realistic_aqi cd timestamp z =
     (let baseline = baseline_aqi cd;
          variance = variance cd;
          seasonal_factor = seasonal_factor cd;
          hour = int (dt_hour timestamp);
          day_of_week = weekday timestamp;
          morning_peak = exp (- real_of_int ((hour - 9) ^ 2) / 8) * 30;
          evening_peak = exp (- real_of_int ((hour - 20) ^ 2) / 8) * 35;
          diurnal_factor = morning_peak + evening_peak;
          weekend_factor = (if day_of_week = 6 then 0.8 else 1.0);
          noise = gauss 0 (variance * 0.3) z;
          aqi = baseline * seasonal_factor * weekend_factor + diurnal_factor + noise
      in max 0 (min 500 aqi))"

definition get_severity :: "real \<Rightarrow> severity" where
  "get_severity aqi =
     (if aqi \<le> 50 then Good
      else if aqi \<le> 100 then Moderate
      else if aqi \<le> 150 then UnhealthySensitive
      else if aqi \<le> 200 then Unhealthy
      else if aqi \<le> 300 then VeryUnhealthy
      else Hazardous)"

text \<open>\<^verbatim>\<open>range(n, -1, -1)\<close>.\<close>

definition range_down :: "nat \<Rightarrow> nat list" where
  "range_down n = rev [0..<Suc n]"

text \<open>\<^verbatim>\<open>xs.sort(key=f, reverse=True)\<close>: a stable sort that keeps the original order of
  equal keys also when reversed; the list is reversed, sorted stably in ascending order
  and reversed again.\<close>

definition sort_reverse :: "('a \<Rightarrow> int) \<Rightarrow> 'a list \<Rightarrow> 'a list" where
  "sort_reverse f xs = rev (sort_key f (rev xs))"

subsection \<open>Public operations\<close>

text \<open>The draw \<open>z i\<close> is the sample of the \<open>i\<close>-th call of \<^verbatim>\<open>random.gauss\<close> in the
  operation, counted from 0.\<close>

definition get_history ::
  "(string \<times> city_data) list \<Rightarrow> string \<Rightarrow> string \<Rightarrow> datetime \<Rightarrow> (nat \<Rightarrow> real)
     \<Rightarrow> error + history_point list" where
  "get_history cities city time_range current_time z =
     (case map_of cities city of
        None \<Rightarrow> Inl (CityNotFound city)
      | Some cd \<Rightarrow>
          if time_range = ''24h'' then
            Inr (map (\<lambda>(i, hours_ago).
                   let timestamp = minus_timedelta current_time 0 (int hours_ago);
                       aqi = calculate_realistic_aqi cd timestamp (z i)
                   in \<lparr>h_time = strftime_HM timestamp, h_aqi = py_int aqi\<rparr>)
                 (enumerate 0 (range_down 24)))
          else if time_range = ''7d'' then
            Inr (map (\<lambda>(i, days_ago).
                   let timestamp = minus_timedelta current_time (int days_ago) 0;
                       noon_time = timestamp\<lparr>dt_hour := 12, dt_minute := 0,
                                             dt_second := 0\<rparr>;
                       aqi = calculate_realistic_aqi cd noon_time (z i)
                   in \<lparr>h_time = strftime_bd timestamp, h_aqi = py_int aqi\<rparr>)
                 (enumerate 0 (range_down 7)))
          else Inl (InvalidRange time_range))"

text \<open>The loop of \<^verbatim>\<open>get_all_cities\<close>, before the sort.\<close>

definition collect_cities_data ::
  "(string \<times> city_data) list \<Rightarrow> datetime \<Rightarrow> (nat \<Rightarrow> real) \<Rightarrow> city_snapshot list" where
  "collect_cities_data cities current_time z =
     map (\<lambda>(i, city_name, city_config).
            let aqi = calculate_realistic_aqi city_config current_time (z i);
                severity = get_severity aqi
            in \<lparr>c_name = city_name, c_lat = lat city_config, c_lng = lng city_config,
                c_aqi = py_int aqi, c_severity = severity\<rparr>)
         (enumerate 0 cities)"

definition get_all_cities ::
  "(string \<times> city_data) list \<Rightarrow> datetime \<Rightarrow> (nat \<Rightarrow> real) \<Rightarrow> city_snapshot list" where
  "get_all_cities cities current_time z =
     sort_reverse c_aqi (collect_cities_data cities current_time z)"

subsection \<open>A concrete clock and noise source\<close>

text \<open>Wednesday 2026-11-04, 21:05:07, and the noise source whose every sample is 0.\<close>

definition example_now :: datetime where
  "example_now =
     \<lparr>dt_ordinal = 739924, dt_hour = 21, dt_minute = 5, dt_second = 7,
      dt_microsecond = 0\<rparr>"

definition zero_noise :: "nat \<Rightarrow> real" where
  "zero_noise i = 0"

section \<open>Properties of the report processor\<close>

subsection \<open>The private functions, by cases\<close>

lemma threshold_high: "threshold ''high'' = 0.75"
  by (simp add: threshold_def confidence_thresholds_def)

lemma threshold_medium: "threshold ''medium'' = 0.5"
  by (simp add: threshold_def confidence_thresholds_def)

lemma random_choice_pair: "random_choice [a, b] k = (if even k then a else b)"
proof -
  have "k mod Suc (Suc 0) = 0 \<or> k mod Suc (Suc 0) = Suc 0" by arith
  moreover have "even k \<longleftrightarrow> k mod Suc (Suc 0) = 0" by presburger
  ultimately show ?thesis by (auto simp: random_choice_def)
qed

lemma simulate_cases:
  "simulate_validation_completion r k =
     (if 0.75 \<le> confidence_score r then Verified
      else if 0.5 \<le> confidence_score r then (if even k then Verified else NeedsReview)
      else (if even k then NeedsReview else Rejected))"
  by (simp add: simulate_validation_completion_def random_choice_pair Let_def)

lemma simulate_not_validating: "simulate_validation_completion r k \<noteq> Validating"
  by (simp add: simulate_cases)

lemma decision_status_by_draws:
  "d_status (make_validation_decision c y loc dr) =
     (if 0.75 \<le> y
      then (if branch_u dr < 0.7 \<and> even (choice_k dr) then Validating else NeedsReview)
      else if 0.5 \<le> y then NeedsReview
      else (if branch_u dr < 0.6 \<and> even (choice_k dr) then NeedsReview else Rejected))"
  by (cases loc)
     (simp add: make_validation_decision_def random_choice_pair Let_def threshold_high
        threshold_medium split: prod.splits)

lemma decision_status_not_verified:
  "d_status (make_validation_decision c y loc dr) \<noteq> Verified"
  by (simp add: decision_status_by_draws)

lemma calculate_reward_formula:
  "calculate_reward r u =
     10 + (if 0.8 \<le> confidence_score r then 5 else 0)
        + (if category r = ''water'' \<or> category r = ''construction'' then 5 else 0)
        + (if u < 0.3 then 5 else 0)"
  by (simp add: calculate_reward_def Let_def)

lemma calculate_reward_ge: "10 \<le> calculate_reward r u"
  by (simp add: calculate_reward_formula)

subsection \<open>What a status query does\<close>

lemma get_status_unknown:
  "reports p rid = None \<Longrightarrow> get_status p rid dr = Inl (ReportNotFound rid)"
  by (simp add: get_status_def)

lemma get_status_fails_iff:
  "get_status p rid dr = Inl e \<longleftrightarrow> reports p rid = None \<and> e = ReportNotFound rid"
  by (auto simp: get_status_def Let_def split: option.splits prod.splits)

lemma calculate_reward_status_upd [simp]:
  "calculate_reward (r\<lparr>validation_status := s\<rparr>) u = calculate_reward r u"
  by (simp add: calculate_reward_def)

lemma get_status_known:
  assumes "reports p rid = Some r"
  shows "get_status p rid dr =
     Inr (\<lparr>st_report_id = rid,
           st_status = resolved_status r dr,
           st_category = category r,
           st_location = location_name r,
           st_submitted_at = submitted_at r,
           st_verified_at = verified_at (report_after r dr),
           st_confidence_score = confidence_score r,
           st_validation_reason = validation_reason r,
           st_reward_coins =
             (if resolved_status r dr = Verified
              then calculate_reward r (location_u dr) else 0),
           st_message = get_status_message (resolved_status r dr)\<rparr>,
          p\<lparr>reports := (reports p)(rid \<mapsto> report_after r dr)\<rparr>)"
  using assms
  by (simp add: get_status_def Let_def resolved_status_def report_after_def)

lemma report_after_status [simp]:
  "validation_status (report_after r dr) = resolved_status r dr"
  by (simp add: report_after_def resolved_status_def Let_def)

lemma report_after_unchanged:
  "validation_status r \<noteq> Validating \<Longrightarrow> validation_status r \<noteq> Verified \<Longrightarrow>
     report_after r dr = r"
  by (simp add: report_after_def resolved_status_def Let_def)

lemma resolved_status_resolved [simp]:
  "validation_status r \<noteq> Validating \<Longrightarrow> resolved_status r dr = validation_status r"
  by (simp add: resolved_status_def)

lemma resolved_status_not_validating [simp]: "resolved_status r dr \<noteq> Validating"
  by (simp add: resolved_status_def simulate_not_validating)

subsection \<open>Evaluation of the concrete run\<close>

lemma example_submitted:
  "process_submission init_processor example_data example_draws =
     (\<lparr>res_report_id = example_id, res_status = ''submitted'',
       res_validation_status = Validating, res_estimated_verification_time = 7,
       res_message = get_status_message Validating\<rparr>,
      \<lparr>reports = [example_id \<mapsto> example_stored], validation_queue = []\<rparr>)"
  by (simp add: process_submission_def example_data_def example_draws_def example_id_def
      example_stored_def extract_yolo_confidence_def
      generate_report_id_def make_validation_decision_def threshold_high threshold_medium
      random_choice_def is_known_hotspot_def py_round2_def round_half_even_def Let_def
      estimate_verification_time_def randint_def init_processor_def)

lemma run_submitted:
  "run [Submit example_data example_draws] =
     \<lparr>reports = [example_id \<mapsto> example_stored], validation_queue = []\<rparr>"
  by (simp add: run_def example_submitted)

lemma report_after_first:
  "report_after example_stored first_poll =
     example_stored\<lparr>validation_status := Verified, reward_coins := 25,
       verified_at := Some ''2026-01-01T10:00:05''\<rparr>"
  by (simp add: report_after_def resolved_status_def simulate_cases
      calculate_reward_formula example_stored_def first_poll_def Let_def)

lemma run_first_poll:
  "run [Submit example_data example_draws, GetStatus example_id first_poll] =
     \<lparr>reports = [example_id \<mapsto> example_stored\<lparr>validation_status := Verified,
         reward_coins := 25, verified_at := Some ''2026-01-01T10:00:05''\<rparr>],
      validation_queue = []\<rparr>"
proof -
  have "run [Submit example_data example_draws, GetStatus example_id first_poll] =
     apply_operation (run [Submit example_data example_draws]) (GetStatus example_id first_poll)"
    by (simp add: run_def)
  also have "\<dots> = \<lparr>reports = [example_id \<mapsto> report_after example_stored first_poll],
      validation_queue = []\<rparr>"
    by (simp add: run_submitted get_status_known)
  finally show ?thesis by (simp add: report_after_first)
qed

lemma report_after_second:
  "report_after (example_stored\<lparr>validation_status := Verified, reward_coins := 25,
       verified_at := Some ''2026-01-01T10:00:05''\<rparr>) second_poll =
     example_stored\<lparr>validation_status := Verified, reward_coins := 20,
       verified_at := Some ''2026-01-01T10:00:09''\<rparr>"
  by (simp add: report_after_def resolved_status_def
      calculate_reward_formula example_stored_def second_poll_def Let_def)

subsection \<open>Resolution of a validating report\<close>

text \<open>
  Claim C1. For every stored report whose status is \<^verbatim>\<open>validating\<close>, one
  \<^verbatim>\<open>get_status\<close> call succeeds and resolves it from the stored confidence score: a
  score of at least 0.75 gives \<^verbatim>\<open>verified\<close>; a score in \<open>[0.50, 0.75)\<close> gives the
  random choice between \<^verbatim>\<open>verified\<close> and \<^verbatim>\<open>needs-review\<close>; a score below 0.50 gives
  the random choice between \<^verbatim>\<open>needs-review\<close> and \<^verbatim>\<open>rejected\<close>. The chosen status is
  the one returned and the one written into the stored record, and it is never
  \<^verbatim>\<open>validating\<close>.
\<close>

theorem get_status_resolves_validating:
  assumes "reports p rid = Some r" and "validation_status r = Validating"
  shows "\<exists>res p' r'.
           get_status p rid dr = Inr (res, p') \<and>
           reports p' rid = Some r' \<and>
           validation_status r' = st_status res \<and>
           validation_status r' \<noteq> Validating \<and>
           (0.75 \<le> confidence_score r \<longrightarrow> st_status res = Verified) \<and>
           (0.5 \<le> confidence_score r \<and> confidence_score r < 0.75 \<longrightarrow>
              st_status res = random_choice [Verified, NeedsReview] (completion_k dr) \<and>
              st_status res \<in> {Verified, NeedsReview}) \<and>
           (confidence_score r < 0.5 \<longrightarrow>
              st_status res = random_choice [NeedsReview, Rejected] (completion_k dr) \<and>
              st_status res \<in> {NeedsReview, Rejected})"
proof -
  have s: "resolved_status r dr = simulate_validation_completion r (completion_k dr)"
    using assms(2) by (simp add: resolved_status_def)
  have c: "simulate_validation_completion r (completion_k dr) \<noteq> Validating"
    by (rule simulate_not_validating)
  show ?thesis
    using assms(1) c
    by (simp add: get_status_known s)
       (simp add: simulate_validation_completion_def random_choice_pair)
qed

theorem get_status_resolves_validating_witness:
  "(\<exists>res p'. get_status (run [Submit example_data example_draws]) example_id first_poll
        = Inr (res, p') \<and> st_status res = Verified
        \<and> map_option validation_status (reports p' example_id) = Some Verified) \<and>
   (\<exists>res p'. get_status
        \<lparr>reports = [example_id \<mapsto> example_stored\<lparr>confidence_score := 0.6\<rparr>],
         validation_queue = []\<rparr> example_id first_poll
        = Inr (res, p') \<and> st_status res = Verified) \<and>
   (\<exists>res p'. get_status
        \<lparr>reports = [example_id \<mapsto> example_stored\<lparr>confidence_score := 0.2\<rparr>],
         validation_queue = []\<rparr> example_id (first_poll\<lparr>completion_k := 1\<rparr>)
        = Inr (res, p') \<and> st_status res = Rejected)"
proof (intro conjI)
  have v: "validation_status example_stored = Validating"
    by (simp add: example_stored_def)
  have h: "reports (run [Submit example_data example_draws]) example_id = Some example_stored"
    by (simp add: run_submitted)
  have c: "0.75 \<le> confidence_score example_stored"
    by (simp add: example_stored_def)
  show "\<exists>res p'. get_status (run [Submit example_data example_draws]) example_id first_poll
        = Inr (res, p') \<and> st_status res = Verified
        \<and> map_option validation_status (reports p' example_id) = Some Verified"
    using get_status_resolves_validating [OF h v, of first_poll] c by auto
next
  let ?r = "example_stored\<lparr>confidence_score := 0.6\<rparr>"
  let ?p = "\<lparr>reports = [example_id \<mapsto> ?r], validation_queue = []\<rparr>"
  have h: "reports ?p example_id = Some ?r" by simp
  have v: "validation_status ?r = Validating" by (simp add: example_stored_def)
  have k: "random_choice [Verified, NeedsReview] (completion_k first_poll) = Verified"
    by (simp add: random_choice_def first_poll_def)
  show "\<exists>res p'. get_status ?p example_id first_poll = Inr (res, p') \<and> st_status res = Verified"
    using get_status_resolves_validating [OF h v, of first_poll] k by auto
next
  let ?r = "example_stored\<lparr>confidence_score := 0.2\<rparr>"
  let ?p = "\<lparr>reports = [example_id \<mapsto> ?r], validation_queue = []\<rparr>"
  let ?d = "first_poll\<lparr>completion_k := 1\<rparr>"
  have h: "reports ?p example_id = Some ?r" by simp
  have v: "validation_status ?r = Validating" by (simp add: example_stored_def)
  have k: "random_choice [NeedsReview, Rejected] (completion_k ?d) = Rejected"
    by (simp add: random_choice_def)
  show "\<exists>res p'. get_status ?p example_id ?d = Inr (res, p') \<and> st_status res = Rejected"
    using get_status_resolves_validating [OF h v, of ?d] k by auto
qed

subsection \<open>Status queries on a resolved report\<close>

lemma get_status_resolved_step:
  assumes "reports p rid = Some r" and "validation_status r \<noteq> Validating"
  shows "get_status p rid dr =
           Inr (\<lparr>st_report_id = rid, st_status = validation_status r,
                 st_category = category r, st_location = location_name r,
                 st_submitted_at = submitted_at r,
                 st_verified_at = (if validation_status r = Verified
                                   then Some (now_iso dr) else verified_at r),
                 st_confidence_score = confidence_score r,
                 st_validation_reason = validation_reason r,
                 st_reward_coins = (if validation_status r = Verified
                                    then calculate_reward r (location_u dr) else 0),
                 st_message = get_status_message (validation_status r)\<rparr>,
                if validation_status r = Verified
                then p\<lparr>reports := (reports p)(rid \<mapsto>
                        r\<lparr>reward_coins := calculate_reward r (location_u dr),
                           verified_at := Some (now_iso dr)\<rparr>)\<rparr>
                else p)"
proof -
  have "(reports p)(rid \<mapsto> r) = reports p"
    using assms(1) by (rule map_upd_triv)
  then show ?thesis
    using assms by (simp add: get_status_known report_after_def Let_def)
qed

lemma get_status_resolved_result:
  assumes "reports p rid = Some r" and "validation_status r \<noteq> Validating"
  shows "\<exists>res. get_status p rid dr =
             Inr (res, if validation_status r = Verified
                       then p\<lparr>reports := (reports p)(rid \<mapsto>
                              r\<lparr>reward_coins := calculate_reward r (location_u dr),
                                 verified_at := Some (now_iso dr)\<rparr>)\<rparr>
                       else p) \<and>
           st_status res = validation_status r \<and>
           st_reward_coins res =
             (if validation_status r = Verified
              then calculate_reward r (location_u dr) else 0)"
  using assms by (simp add: get_status_resolved_step)

text \<open>
  Claim C2, as amended. On a stored report whose status is \<^verbatim>\<open>verified\<close>,
  \<^verbatim>\<open>needs-review\<close> or \<^verbatim>\<open>rejected\<close>, two successive \<^verbatim>\<open>get_status\<close> calls both succeed,
  both return the stored status, and the stored status is unchanged. When the status
  is not \<^verbatim>\<open>verified\<close> the store is left exactly as it was and the reward returned is 0.
  When the status is \<^verbatim>\<open>verified\<close>, every call computes the reward anew with its own
  draw, returns it, stores it, and stores the time of that call as the verification
  timestamp.
\<close>

theorem get_status_on_resolved:
  assumes "reports p rid = Some r" and "validation_status r \<noteq> Validating"
  shows "\<exists>res1 p1 r1 res2 p2 r2.
           get_status p rid d1 = Inr (res1, p1) \<and> reports p1 rid = Some r1 \<and>
           get_status p1 rid d2 = Inr (res2, p2) \<and> reports p2 rid = Some r2 \<and>
           st_status res1 = validation_status r \<and> st_status res2 = validation_status r \<and>
           validation_status r1 = validation_status r \<and>
           validation_status r2 = validation_status r \<and>
           (validation_status r \<noteq> Verified \<longrightarrow>
              p1 = p \<and> p2 = p \<and> st_reward_coins res1 = 0 \<and> st_reward_coins res2 = 0) \<and>
           (validation_status r = Verified \<longrightarrow>
              st_reward_coins res1 = calculate_reward r (location_u d1) \<and>
              reward_coins r1 = calculate_reward r (location_u d1) \<and>
              verified_at r1 = Some (now_iso d1) \<and>
              st_reward_coins res2 = calculate_reward r (location_u d2) \<and>
              reward_coins r2 = calculate_reward r (location_u d2) \<and>
              verified_at r2 = Some (now_iso d2))"
proof (cases "validation_status r = Verified")
  case False
  obtain res1 where 1: "get_status p rid d1 = Inr (res1, p)"
      "st_status res1 = validation_status r" "st_reward_coins res1 = 0"
    using get_status_resolved_result [OF assms, of d1] False by auto
  obtain res2 where 2: "get_status p rid d2 = Inr (res2, p)"
      "st_status res2 = validation_status r" "st_reward_coins res2 = 0"
    using get_status_resolved_result [OF assms, of d2] False by auto
  show ?thesis
    using 1 2 assms(1) False by blast
next
  case True
  define r1 where "r1 = r\<lparr>reward_coins := calculate_reward r (location_u d1),
                 verified_at := Some (now_iso d1)\<rparr>"
  define p1 where "p1 = p\<lparr>reports := (reports p)(rid \<mapsto> r1)\<rparr>"
  define r2 where "r2 = r1\<lparr>reward_coins := calculate_reward r1 (location_u d2),
                 verified_at := Some (now_iso d2)\<rparr>"
  define p2 where "p2 = p1\<lparr>reports := (reports p1)(rid \<mapsto> r2)\<rparr>"
  have v1: "validation_status r1 = Verified" "validation_status r1 \<noteq> Validating"
    using True by (simp_all add: r1_def)
  have h1: "reports p1 rid = Some r1" by (simp add: p1_def)
  have h2: "reports p2 rid = Some r2" by (simp add: p2_def)
  have c: "calculate_reward r1 (location_u d2) = calculate_reward r (location_u d2)"
    by (simp add: calculate_reward_def r1_def)
  obtain res1 where 1: "get_status p rid d1 = Inr (res1, p1)"
      "st_status res1 = validation_status r"
      "st_reward_coins res1 = calculate_reward r (location_u d1)"
    using get_status_resolved_result [OF assms, of d1] True
    by (auto simp: p1_def r1_def)
  obtain res2 where 2: "get_status p1 rid d2 = Inr (res2, p2)"
      "st_status res2 = validation_status r1"
      "st_reward_coins res2 = calculate_reward r1 (location_u d2)"
    using get_status_resolved_result [OF h1 v1(2), of d2] v1(1)
    by (auto simp: p2_def r2_def)
  have f1: "reward_coins r1 = calculate_reward r (location_u d1)"
      "verified_at r1 = Some (now_iso d1)"
    by (simp_all add: r1_def)
  have f2: "reward_coins r2 = calculate_reward r (location_u d2)"
      "verified_at r2 = Some (now_iso d2)" "validation_status r2 = Verified"
    using c v1 by (simp_all add: r2_def)
  show ?thesis
    using 1 2 h1 h2 f1 f2 v1 c True by force
qed


lemma run_snoc: "run (ops @ [x]) = apply_operation (run ops) x"
  by (simp add: run_def)

lemma apply_get_status_known:
  "reports p rid = Some r \<Longrightarrow>
     apply_operation p (GetStatus rid dr) = p\<lparr>reports := (reports p)(rid \<mapsto> report_after r dr)\<rparr>"
  by (simp add: get_status_known)

lemma run_second_poll:
  "run [Submit example_data example_draws, GetStatus example_id first_poll,
        GetStatus example_id second_poll] =
     \<lparr>reports = [example_id \<mapsto> example_stored\<lparr>validation_status := Verified,
         reward_coins := 20, verified_at := Some ''2026-01-01T10:00:09''\<rparr>],
      validation_queue = []\<rparr>"
proof -
  have "run ([Submit example_data example_draws, GetStatus example_id first_poll]
          @ [GetStatus example_id second_poll]) =
        apply_operation (run [Submit example_data example_draws,
          GetStatus example_id first_poll]) (GetStatus example_id second_poll)"
    by (rule run_snoc)
  then show ?thesis
    by (simp add: run_first_poll apply_get_status_known report_after_second
        del: apply_operation.simps)
qed

theorem get_status_on_resolved_witness:
  "(\<exists>res1 p1 res2 p2.
      get_status (run [Submit example_data example_draws, GetStatus example_id first_poll])
        example_id second_poll = Inr (res1, p1) \<and>
      get_status p1 example_id first_poll = Inr (res2, p2) \<and>
      st_status res1 = Verified \<and> st_status res2 = Verified \<and>
      st_reward_coins res1 = 20 \<and> st_reward_coins res2 = 25) \<and>
   (\<exists>res1 res2.
      get_status \<lparr>reports = [example_id \<mapsto> example_stored\<lparr>validation_status := Rejected\<rparr>],
                  validation_queue = []\<rparr> example_id first_poll
        = Inr (res1, \<lparr>reports = [example_id \<mapsto> example_stored\<lparr>validation_status := Rejected\<rparr>],
                  validation_queue = []\<rparr>) \<and>
      get_status \<lparr>reports = [example_id \<mapsto> example_stored\<lparr>validation_status := Rejected\<rparr>],
                  validation_queue = []\<rparr> example_id second_poll
        = Inr (res2, \<lparr>reports = [example_id \<mapsto> example_stored\<lparr>validation_status := Rejected\<rparr>],
                  validation_queue = []\<rparr>) \<and>
      st_status res1 = Rejected \<and> st_status res2 = Rejected \<and>
      st_reward_coins res1 = 0 \<and> st_reward_coins res2 = 0)"
proof (intro conjI)
  let ?r = "example_stored\<lparr>validation_status := Verified, reward_coins := 25,
              verified_at := Some ''2026-01-01T10:00:05''\<rparr>"
  let ?p = "run [Submit example_data example_draws, GetStatus example_id first_poll]"
  have h: "reports ?p example_id = Some ?r" by (simp add: run_first_poll)
  have v: "validation_status ?r \<noteq> Validating" by simp
  have c: "calculate_reward ?r (location_u second_poll) = 20"
      "calculate_reward ?r (location_u first_poll) = 25"
    by (simp_all add: calculate_reward_formula example_stored_def second_poll_def
        first_poll_def)
  show "\<exists>res1 p1 res2 p2.
      get_status ?p example_id second_poll = Inr (res1, p1) \<and>
      get_status p1 example_id first_poll = Inr (res2, p2) \<and>
      st_status res1 = Verified \<and> st_status res2 = Verified \<and>
      st_reward_coins res1 = 20 \<and> st_reward_coins res2 = 25"
    using get_status_on_resolved [OF h v, of second_poll first_poll] c
    by (simp del: One_nat_def) metis
next
  let ?r = "example_stored\<lparr>validation_status := Rejected\<rparr>"
  let ?p = "\<lparr>reports = [example_id \<mapsto> ?r], validation_queue = []\<rparr>"
  have h: "reports ?p example_id = Some ?r" by simp
  have v: "validation_status ?r \<noteq> Validating" by simp
  show "\<exists>res1 res2.
      get_status ?p example_id first_poll = Inr (res1, ?p) \<and>
      get_status ?p example_id second_poll = Inr (res2, ?p) \<and>
      st_status res1 = Rejected \<and> st_status res2 = Rejected \<and>
      st_reward_coins res1 = 0 \<and> st_reward_coins res2 = 0"
    using get_status_on_resolved [OF h v, of first_poll second_poll]
    by (simp del: One_nat_def) metis
qed

text \<open>
  Claim C2 as stated fails: the report of the concrete run is resolved to
  \<^verbatim>\<open>verified\<close> by the first poll, which returns a reward of 25 and stores the first
  timestamp; the second poll on the resolved report returns and stores a reward of 20
  and replaces the timestamp.
\<close>

theorem get_status_reward_once_counterexample:
  "map_sum id (st_reward_coins \<circ> fst)
     (get_status (run [Submit example_data example_draws]) example_id first_poll) = Inr 25 \<and>
   map_option validation_status
     (reports (run [Submit example_data example_draws, GetStatus example_id first_poll])
        example_id) = Some Verified \<and>
   map_option verified_at
     (reports (run [Submit example_data example_draws, GetStatus example_id first_poll])
        example_id) = Some (Some ''2026-01-01T10:00:05'') \<and>
   map_sum id (st_reward_coins \<circ> fst)
     (get_status (run [Submit example_data example_draws, GetStatus example_id first_poll])
        example_id second_poll) = Inr 20 \<and>
   map_option reward_coins
     (reports (run [Submit example_data example_draws, GetStatus example_id first_poll,
        GetStatus example_id second_poll]) example_id) = Some 20 \<and>
   map_option verified_at
     (reports (run [Submit example_data example_draws, GetStatus example_id first_poll,
        GetStatus example_id second_poll]) example_id) = Some (Some ''2026-01-01T10:00:09'')"
proof -
  let ?r1 = "example_stored\<lparr>validation_status := Verified, reward_coins := 25,
               verified_at := Some ''2026-01-01T10:00:05''\<rparr>"
  have a: "reports (run [Submit example_data example_draws]) example_id = Some example_stored"
    by (simp add: run_submitted)
  have b: "reports (run [Submit example_data example_draws,
      GetStatus example_id first_poll]) example_id = Some ?r1"
    by (simp add: run_first_poll)
  have s1: "resolved_status example_stored first_poll = Verified"
    by (simp add: resolved_status_def simulate_cases example_stored_def)
  have c1: "calculate_reward example_stored (location_u first_poll) = 25"
    by (simp add: calculate_reward_formula example_stored_def first_poll_def)
  have s2: "resolved_status ?r1 second_poll = Verified"
    by (simp add: resolved_status_def)
  have c2: "calculate_reward ?r1 (location_u second_poll) = 20"
    by (simp add: calculate_reward_formula example_stored_def second_poll_def)
  have g1: "map_sum id (st_reward_coins \<circ> fst)
      (get_status (run [Submit example_data example_draws]) example_id first_poll) = Inr 25"
    by (simp add: get_status_known [OF a] s1 c1)
  have g2: "map_sum id (st_reward_coins \<circ> fst)
      (get_status (run [Submit example_data example_draws, GetStatus example_id first_poll])
         example_id second_poll) = Inr 20"
    by (simp add: get_status_known [OF b] s2 c2)
  show ?thesis
    using g1 g2 by (simp add: run_first_poll run_second_poll)
qed

subsection \<open>What a submission stores\<close>

lemma process_submission_reports:
  "reports (snd (process_submission p rd dr)) =
     (reports p)(res_report_id (fst (process_submission p rd dr)) \<mapsto>
        \<lparr>report_id = res_report_id (fst (process_submission p rd dr)),
         category = in_category rd, latitude = in_latitude rd,
         longitude = in_longitude rd, location_name = in_location_name rd,
         yolo_result = in_yolo_result rd, submitted_at = in_timestamp rd,
         validation_status = res_validation_status (fst (process_submission p rd dr)),
         validation_reason = d_reason (make_validation_decision (in_category rd)
            (extract_yolo_confidence rd) (in_latitude rd, in_longitude rd) (decision_rnd dr)),
         confidence_score = d_confidence (make_validation_decision (in_category rd)
            (extract_yolo_confidence rd) (in_latitude rd, in_longitude rd) (decision_rnd dr)),
         verified_at = None, reward_coins = 0\<rparr>)"
  by (simp add: process_submission_def Let_def)

lemma process_submission_status:
  "res_validation_status (fst (process_submission p rd dr)) =
     d_status (make_validation_decision (in_category rd) (extract_yolo_confidence rd)
       (in_latitude rd, in_longitude rd) (decision_rnd dr))"
  by (simp add: process_submission_def Let_def)

lemma process_submission_id:
  "res_report_id (fst (process_submission p rd dr)) =
     generate_report_id (id_timestamp dr) (id_uuid dr)"
  by (simp add: process_submission_def Let_def)

lemma submission_status_not_verified:
  "res_validation_status (fst (process_submission p rd dr)) \<noteq> Verified"
  by (simp add: process_submission_status decision_status_not_verified)

subsection \<open>The reward invariant of every reachable state\<close>

lemma reward_invariant_init: "reward_invariant init_processor"
  by (simp add: reward_invariant_def init_processor_def)

lemma reward_invariant_submit:
  assumes "reward_invariant p"
  shows "reward_invariant (snd (process_submission p rd dr))"
  unfolding reward_invariant_def
proof (intro allI impI)
  fix rid r
  assume h: "reports (snd (process_submission p rd dr)) rid = Some r"
  show "if validation_status r = Verified
        then 10 \<le> reward_coins r \<and> verified_at r \<noteq> None
        else reward_coins r = 0 \<and> verified_at r = None"
  proof (cases "rid = res_report_id (fst (process_submission p rd dr))")
    case True
    with h show ?thesis
      using submission_status_not_verified [of p rd dr]
      by (auto simp: process_submission_reports)
  next
    case False
    with h have "reports p rid = Some r"
      by (simp add: process_submission_reports)
    with assms show ?thesis by (simp add: reward_invariant_def)
  qed
qed

lemma report_after_invariant:
  assumes "if validation_status r = Verified
           then 10 \<le> reward_coins r \<and> verified_at r \<noteq> None
           else reward_coins r = 0 \<and> verified_at r = None"
  shows "if validation_status (report_after r dr) = Verified
         then 10 \<le> reward_coins (report_after r dr) \<and> verified_at (report_after r dr) \<noteq> None
         else reward_coins (report_after r dr) = 0 \<and> verified_at (report_after r dr) = None"
proof (cases "resolved_status r dr = Verified")
  case True
  have "reward_coins (report_after r dr) = calculate_reward r (location_u dr)"
       "verified_at (report_after r dr) = Some (now_iso dr)"
    using True by (simp_all add: report_after_def Let_def)
  then show ?thesis
    using True by (simp add: calculate_reward_ge)
next
  case False
  then have n: "validation_status r \<noteq> Verified"
    by (auto simp: resolved_status_def)
  have "reward_coins (report_after r dr) = reward_coins r"
       "verified_at (report_after r dr) = verified_at r"
    using False by (simp_all add: report_after_def Let_def)
  then show ?thesis
    using False n assms by simp
qed

lemma reward_invariant_get_status:
  assumes "reward_invariant p"
  shows "reward_invariant (apply_operation p (GetStatus rid dr))"
proof (cases "reports p rid")
  case None
  then show ?thesis using assms by (simp add: get_status_unknown)
next
  case (Some r)
  have r: "if validation_status r = Verified
           then 10 \<le> reward_coins r \<and> verified_at r \<noteq> None
           else reward_coins r = 0 \<and> verified_at r = None"
    using assms Some by (simp add: reward_invariant_def)
  show ?thesis
    unfolding apply_get_status_known [OF Some] reward_invariant_def
  proof (intro allI impI)
    fix rid' r'
    assume h: "reports (p\<lparr>reports := (reports p)(rid \<mapsto> report_after r dr)\<rparr>) rid' = Some r'"
    show "if validation_status r' = Verified
          then 10 \<le> reward_coins r' \<and> verified_at r' \<noteq> None
          else reward_coins r' = 0 \<and> verified_at r' = None"
    proof (cases "rid' = rid")
      case True
      with h have "r' = report_after r dr" by simp
      then show ?thesis using report_after_invariant [OF r, of dr] by simp
    next
      case False
      with h have "reports p rid' = Some r'" by simp
      with assms show ?thesis by (simp add: reward_invariant_def)
    qed
  qed
qed

lemma reward_invariant_apply:
  "reward_invariant p \<Longrightarrow> reward_invariant (apply_operation p x)"
proof (cases x)
  case (Submit rd dr)
  assume "reward_invariant p"
  then show ?thesis using Submit by (simp add: reward_invariant_submit)
next
  case (GetStatus rid dr)
  assume "reward_invariant p"
  then show ?thesis using GetStatus by (simp only: reward_invariant_get_status)
qed

lemma reward_invariant_run: "reward_invariant (run ops)"
proof (induction ops rule: rev_induct)
  case Nil
  show ?case by (simp add: run_def reward_invariant_init)
next
  case (snoc x xs)
  then show ?case by (simp only: run_snoc reward_invariant_apply)
qed


lemma get_status_Inr_known:
  assumes "get_status p rid dr = Inr (res, p')"
  obtains r where "reports p rid = Some r"
  using assms by (cases "reports p rid") (simp_all add: get_status_unknown)

text \<open>
  Claim C4. In every state that a history of submissions and status queries reaches,
  a successful \<^verbatim>\<open>get_status\<close> returns reward 0 when the status it returns is not
  \<^verbatim>\<open>verified\<close>; when the status is \<^verbatim>\<open>verified\<close> the reward is 10, plus 5 if the
  stored confidence score is at least 0.8, plus 5 if the category is \<^verbatim>\<open>water\<close> or
  \<^verbatim>\<open>construction\<close>, plus 5 if the location draw is below 0.3 (probability 30% for
  a uniform draw), hence at least 10. The stored reward of the queried report equals
  the returned one, and every stored report has reward 0 unless it is \<^verbatim>\<open>verified\<close>,
  and then at least 10.
\<close>

theorem reward_by_status:
  assumes "get_status (run ops) rid dr = Inr (res, p')"
  shows "(st_status res \<noteq> Verified \<longrightarrow> st_reward_coins res = 0) \<and>
         (st_status res = Verified \<longrightarrow>
            st_reward_coins res =
              10 + (if 0.8 \<le> st_confidence_score res then 5 else 0)
                 + (if st_category res = ''water'' \<or> st_category res = ''construction''
                    then 5 else 0)
                 + (if location_u dr < 0.3 then 5 else 0) \<and>
            10 \<le> st_reward_coins res) \<and>
         (\<exists>r'. reports p' rid = Some r' \<and> validation_status r' = st_status res \<and>
               confidence_score r' = st_confidence_score res \<and>
               category r' = st_category res \<and>
               reward_coins r' = st_reward_coins res) \<and>
         (\<forall>rid' r'. reports p' rid' = Some r' \<longrightarrow>
            (if validation_status r' = Verified then 10 \<le> reward_coins r'
             else reward_coins r' = 0))"
proof -
  obtain r where r: "reports (run ops) rid = Some r"
    using assms by (rule get_status_Inr_known)
  note k = get_status_known [OF r, of dr]
  have res: "st_status res = resolved_status r dr"
      "st_confidence_score res = confidence_score r" "st_category res = category r"
      "st_reward_coins res =
         (if resolved_status r dr = Verified then calculate_reward r (location_u dr) else 0)"
    using assms k by auto
  have p': "p' = run (ops @ [GetStatus rid dr])"
    using assms by (simp add: run_snoc)
  have inv': "reward_invariant p'"
    unfolding p' by (rule reward_invariant_run)
  have stored: "reports p' rid = Some (report_after r dr)"
    using assms k by auto
  have fields: "confidence_score (report_after r dr) = confidence_score r"
      "category (report_after r dr) = category r"
    by (simp_all add: report_after_def Let_def)
  have rw: "reward_coins (report_after r dr) = st_reward_coins res"
  proof (cases "resolved_status r dr = Verified")
    case True
    then show ?thesis by (simp add: res report_after_def Let_def)
  next
    case False
    then have "validation_status (report_after r dr) \<noteq> Verified" by simp
    then have "reward_coins (report_after r dr) = 0"
      using inv' stored by (auto simp: reward_invariant_def)
    then show ?thesis using False by (simp add: res)
  qed
  have one: "st_status res \<noteq> Verified \<longrightarrow> st_reward_coins res = 0"
    by (simp add: res)
  have two: "st_status res = Verified \<longrightarrow>
            st_reward_coins res =
              10 + (if 0.8 \<le> st_confidence_score res then 5 else 0)
                 + (if st_category res = ''water'' \<or> st_category res = ''construction''
                    then 5 else 0)
                 + (if location_u dr < 0.3 then 5 else 0) \<and>
            10 \<le> st_reward_coins res"
    by (simp add: res calculate_reward_formula)
  have three: "\<exists>r'. reports p' rid = Some r' \<and> validation_status r' = st_status res \<and>
               confidence_score r' = st_confidence_score res \<and>
               category r' = st_category res \<and>
               reward_coins r' = st_reward_coins res"
    using stored rw fields by (simp add: res)
  have four: "\<forall>rid' r'. reports p' rid' = Some r' \<longrightarrow>
            (if validation_status r' = Verified then 10 \<le> reward_coins r'
             else reward_coins r' = 0)"
    using inv' by (auto simp: reward_invariant_def split: if_splits)
  show ?thesis using one two three four by blast
qed


lemma run_submitted_review:
  "run [Submit example_data review_draws] =
     \<lparr>reports = [example_id \<mapsto> example_stored\<lparr>validation_status := NeedsReview\<rparr>],
      validation_queue = [example_id]\<rparr>"
  by (simp add: run_def process_submission_def example_data_def example_draws_def
      review_draws_def example_id_def example_stored_def extract_yolo_confidence_def
      generate_report_id_def make_validation_decision_def threshold_high threshold_medium
      random_choice_def is_known_hotspot_def py_round2_def round_half_even_def Let_def
      estimate_verification_time_def randint_def init_processor_def)

theorem reward_by_status_witness:
  "(\<exists>res p'. get_status (run [Submit example_data example_draws]) example_id first_poll
       = Inr (res, p') \<and> st_status res = Verified \<and> st_reward_coins res = 25) \<and>
   (\<exists>res p'. get_status (run [Submit example_data review_draws])
       example_id first_poll
       = Inr (res, p') \<and> st_status res = NeedsReview \<and> st_reward_coins res = 0)"
proof (intro conjI)
  let ?p = "run [Submit example_data example_draws]"
  have h: "reports ?p example_id = Some example_stored"
    by (simp add: run_submitted)
  have s: "resolved_status example_stored first_poll = Verified"
    by (simp add: resolved_status_def simulate_cases example_stored_def)
  obtain res p' where g: "get_status ?p example_id first_poll = Inr (res, p')"
    and f: "st_status res = Verified" "st_confidence_score res = 0.87"
      "st_category res = ''construction''"
    using get_status_known [OF h, of first_poll] s by (simp add: example_stored_def)
  have u: "location_u first_poll < 0.3" by (simp add: first_poll_def)
  have "st_reward_coins res = 25"
    using reward_by_status [OF g] f u by simp
  with g f show "\<exists>res p'. get_status ?p example_id first_poll = Inr (res, p') \<and>
      st_status res = Verified \<and> st_reward_coins res = 25"
    by blast
next
  let ?p = "run [Submit example_data review_draws]"
  let ?r = "example_stored\<lparr>validation_status := NeedsReview\<rparr>"
  have h: "reports ?p example_id = Some ?r"
    by (simp add: run_submitted_review)
  have s: "resolved_status ?r first_poll = NeedsReview"
    by (simp add: resolved_status_def)
  obtain res p' where g: "get_status ?p example_id first_poll = Inr (res, p')"
    and f: "st_status res = NeedsReview"
    using get_status_known [OF h, of first_poll] s by simp
  have "st_reward_coins res = 0"
    using reward_by_status [OF g] f by simp
  with g f show "\<exists>res p'. get_status ?p example_id first_poll = Inr (res, p') \<and>
      st_status res = NeedsReview \<and> st_reward_coins res = 0"
    by blast
qed


text \<open>
  Claim C5. A submission stores its record under the identifier that it returns, so
  a \<^verbatim>\<open>get_status\<close> call with that identifier on the resulting state succeeds,
  whatever the draws; and \<^verbatim>\<open>get_status\<close> fails exactly for the identifiers absent
  from the collection, with the report-not-found error.
\<close>

theorem submit_then_status_found:
  assumes "process_submission p rd dr = (res, p')"
  shows "reports p' (res_report_id res) \<noteq> None \<and>
         (\<exists>out p''. get_status p' (res_report_id res) sd = Inr (out, p'') \<and>
                    st_report_id out = res_report_id res) \<and>
         (\<forall>q rid d e. get_status q rid d = Inl e \<longleftrightarrow>
                        reports q rid = None \<and> e = ReportNotFound rid)"
proof -
  have res: "res = fst (process_submission p rd dr)"
    and p': "p' = snd (process_submission p rd dr)"
    using assms by simp_all
  have stored: "reports p' (res_report_id res) \<noteq> None"
    unfolding res p' by (simp add: process_submission_reports)
  then obtain r where r: "reports p' (res_report_id res) = Some r" by blast
  have "\<exists>out p''. get_status p' (res_report_id res) sd = Inr (out, p'') \<and>
                    st_report_id out = res_report_id res"
    by (simp add: get_status_known [OF r])
  with stored show ?thesis
    by (simp add: get_status_fails_iff)
qed

theorem submit_then_status_found_witness:
  "\<exists>out p''. get_status (run [Submit example_data example_draws]) example_id second_poll
      = Inr (out, p'') \<and> st_report_id out = example_id"
  using submit_then_status_found [of init_processor example_data example_draws
      "fst (process_submission init_processor example_data example_draws)"
      "snd (process_submission init_processor example_data example_draws)" second_poll]
  by (simp add: example_submitted run_submitted)

text \<open>
  Claim C10. For every submission and every outcome of the draws, the status stored
  in the new record is the status returned, it is one of \<^verbatim>\<open>validating\<close>,
  \<^verbatim>\<open>needs-review\<close>, \<^verbatim>\<open>rejected\<close> and never \<^verbatim>\<open>verified\<close>. It is \<^verbatim>\<open>validating\<close> exactly
  for the draws at which the decision of the source is \<^verbatim>\<open>verified\<close> (high band, first
  draw below 0.7, first element chosen). A submission creates no \<^verbatim>\<open>verified\<close>
  record: any record that is \<^verbatim>\<open>verified\<close> afterwards was stored unchanged before.
\<close>

theorem submission_never_verified:
  assumes "process_submission p rd dr = (res, p')"
  shows "\<exists>r. reports p' (res_report_id res) = Some r \<and>
             validation_status r = res_validation_status res \<and>
             validation_status r \<in> {Validating, NeedsReview, Rejected} \<and>
             validation_status r \<noteq> Verified \<and>
             (validation_status r = Validating \<longleftrightarrow>
                0.75 \<le> extract_yolo_confidence rd \<and>
                branch_u (decision_rnd dr) < 0.7 \<and> even (choice_k (decision_rnd dr))) \<and>
             (\<forall>rid' r'. reports p' rid' = Some r' \<and> validation_status r' = Verified
                \<longrightarrow> reports p rid' = Some r')"
proof -
  have res: "res = fst (process_submission p rd dr)"
    and p': "p' = snd (process_submission p rd dr)"
    using assms by simp_all
  let ?s = "d_status (make_validation_decision (in_category rd)
       (extract_yolo_confidence rd) (in_latitude rd, in_longitude rd) (decision_rnd dr))"
  have s: "res_validation_status res = ?s"
    unfolding res by (rule process_submission_status)
  have nv: "?s \<noteq> Verified" by (rule decision_status_not_verified)
  then have mem: "?s \<in> {Validating, NeedsReview, Rejected}"
    by (cases ?s) simp_all
  have val: "?s = Validating \<longleftrightarrow>
                0.75 \<le> extract_yolo_confidence rd \<and>
                branch_u (decision_rnd dr) < 0.7 \<and> even (choice_k (decision_rnd dr))"
    by (simp add: decision_status_by_draws)
  obtain r where r: "reports p' (res_report_id res) = Some r"
    and rs: "validation_status r = res_validation_status res"
    unfolding res p' by (simp add: process_submission_reports)
  have old: "\<forall>rid' r'. reports p' rid' = Some r' \<and> validation_status r' = Verified
                \<longrightarrow> reports p rid' = Some r'"
  proof (intro allI impI)
    fix rid' r'
    assume a: "reports p' rid' = Some r' \<and> validation_status r' = Verified"
    show "reports p rid' = Some r'"
    proof (cases "rid' = res_report_id res")
      case True
      with a r rs s nv show ?thesis by simp
    next
      case False
      with a show ?thesis
        unfolding res p' by (simp add: process_submission_reports)
    qed
  qed
  show ?thesis
    using r rs s nv mem val old by auto
qed

theorem submission_never_verified_witness:
  "map_option validation_status
     (reports (snd (process_submission init_processor example_data example_draws)) example_id)
     = Some Validating \<and>
   map_option validation_status
     (reports (snd (process_submission init_processor example_data review_draws)) example_id)
     \<noteq> Some Verified"
proof -
  have a: "process_submission init_processor example_data example_draws =
      (fst (process_submission init_processor example_data example_draws),
       snd (process_submission init_processor example_data example_draws))" by simp
  have b: "process_submission init_processor example_data review_draws =
      (fst (process_submission init_processor example_data review_draws),
       snd (process_submission init_processor example_data review_draws))" by simp
  have i1: "res_report_id (fst (process_submission init_processor example_data example_draws))
      = example_id"
    by (simp add: process_submission_id example_draws_def generate_report_id_def
        example_id_def)
  have i2: "res_report_id (fst (process_submission init_processor example_data review_draws))
      = example_id"
    by (simp add: process_submission_id example_draws_def review_draws_def
        generate_report_id_def example_id_def)
  have y: "0.75 \<le> extract_yolo_confidence example_data"
    by (simp add: extract_yolo_confidence_def example_data_def)
  have d: "branch_u (decision_rnd example_draws) < 0.7"
      "even (choice_k (decision_rnd example_draws))"
    by (simp_all add: example_draws_def)
  from submission_never_verified [OF a] submission_never_verified [OF b] y d
  show ?thesis
    unfolding i1 i2 by auto
qed

text \<open>
  Claim C3, evaluated on the code. In the high band, with the first draw 0.3 inside
  the 70% branch, the inner \<^verbatim>\<open>random.choice\<close> picking its second element gives
  \<^verbatim>\<open>needs-review\<close>, not the verified path; in the low band, with the first draw 0.3
  inside the 60% branch, it gives \<^verbatim>\<open>rejected\<close>, not \<^verbatim>\<open>needs-review\<close>. By
  \<open>decision_status_by_draws\<close> the verified path needs both the first draw below 0.7
  and the first element chosen, so for independent uniform draws its probability is
  0.7 * 0.5 = 0.35, and that of \<^verbatim>\<open>needs-review\<close> in the low band is 0.6 * 0.5 = 0.3.
\<close>

theorem decision_branch_split:
  "d_status (make_validation_decision ''construction'' 0.87 (28.6139, 77.2090)
      \<lparr>branch_u = 0.3, choice_k = 1, hotspot_u = 0.5\<rparr>) = NeedsReview \<and>
   d_status (make_validation_decision ''air'' 0.2 (28.6139, 77.2090)
      \<lparr>branch_u = 0.3, choice_k = 1, hotspot_u = 0.5\<rparr>) = Rejected"
  by (simp add: decision_status_by_draws)

section \<open>Properties of the AQI stream simulator\<close>

lemma py_int_range: "0 \<le> x \<Longrightarrow> x \<le> 500 \<Longrightarrow> 0 \<le> py_int x \<and> py_int x \<le> 500"
  by (simp add: py_int_def floor_le_iff)

text \<open>
  Claim C7. For every city configuration, every timestamp and every noise sample, the
  value that \<^verbatim>\<open>_calculate_realistic_aqi\<close> returns lies in \<open>[0, 500]\<close>, and so does
  the integer \<^verbatim>\<open>int(aqi)\<close> that the operations report.
\<close>

theorem aqi_in_range:
  "0 \<le> calculate_realistic_aqi cd ts z \<and> calculate_realistic_aqi cd ts z \<le> 500 \<and>
   0 \<le> py_int (calculate_realistic_aqi cd ts z) \<and>
   py_int (calculate_realistic_aqi cd ts z) \<le> 500"
proof -
  have "0 \<le> calculate_realistic_aqi cd ts z" "calculate_realistic_aqi cd ts z \<le> 500"
    by (simp_all add: calculate_realistic_aqi_def Let_def)
  then show ?thesis using py_int_range by blast
qed

text \<open>
  Claim C8. The severity mapping is monotonic in the rank order good, moderate,
  unhealthy-sensitive, unhealthy, very-unhealthy, hazardous: for AQI values
  \<open>a < b\<close> the rank of the severity of \<open>a\<close> is at most that of \<open>b\<close>; and the bands
  are bounded at 50, 100, 150, 200 and 300, each upper bound inclusive.
\<close>

theorem severity_monotone:
  assumes "a < b"
  shows "severity_rank (get_severity a) \<le> severity_rank (get_severity b) \<and>
         (get_severity a = Good \<longleftrightarrow> a \<le> 50) \<and>
         (get_severity a = Moderate \<longleftrightarrow> 50 < a \<and> a \<le> 100) \<and>
         (get_severity a = UnhealthySensitive \<longleftrightarrow> 100 < a \<and> a \<le> 150) \<and>
         (get_severity a = Unhealthy \<longleftrightarrow> 150 < a \<and> a \<le> 200) \<and>
         (get_severity a = VeryUnhealthy \<longleftrightarrow> 200 < a \<and> a \<le> 300) \<and>
         (get_severity a = Hazardous \<longleftrightarrow> 300 < a)"
  using assms by (simp add: get_severity_def)

theorem severity_monotone_witness:
  "(50::real) < 50.5 \<and> get_severity 50 = Good \<and> get_severity 50.5 = Moderate \<and>
   severity_rank (get_severity 50) \<le> severity_rank (get_severity 50.5) \<and>
   severity_rank (get_severity 300) \<le> severity_rank (get_severity 300.25) \<and>
   get_severity 300.25 = Hazardous"
proof -
  have h: "(50::real) < 50.5" by simp
  have k: "(300::real) < 300.25" by simp
  have m: "\<not> (50.5::real) \<le> 50" "(50.5::real) \<le> 100" "\<not> (300.25::real) \<le> 300" by simp_all
  from severity_monotone [OF h] severity_monotone [OF k]
  show ?thesis
    using h m by (simp add: get_severity_def)
qed

lemma length_range_down: "length (range_down n) = Suc n"
  by (simp add: range_down_def)

lemma get_history_24h:
  assumes "map_of cities city = Some cd"
  shows "\<exists>pts. get_history cities city ''24h'' now z = Inr pts \<and> length pts = 25"
  unfolding get_history_def using assms
  by (simp add: length_range_down del: enumerate_eq_zip)


lemma get_history_7d:
  assumes "map_of cities city = Some cd"
  shows "\<exists>pts. get_history cities city ''7d'' now z = Inr pts \<and> length pts = 8"
  unfolding get_history_def using assms
  by (simp add: length_range_down del: enumerate_eq_zip)

lemma get_history_invalid:
  assumes "map_of cities city = Some cd" and "r \<noteq> ''24h''" and "r \<noteq> ''7d''"
  shows "get_history cities city r now z = Inl (InvalidRange r)"
  unfolding get_history_def using assms by simp

lemma get_history_unknown_city:
  "map_of cities city = None \<Longrightarrow> get_history cities city r now z = Inl (CityNotFound city)"
  by (simp add: get_history_def)


text \<open>
  Claim C6. For every configured city, the history of range \<^verbatim>\<open>24h\<close> succeeds with
  exactly 25 points, that of range \<^verbatim>\<open>7d\<close> succeeds with exactly 8 points, and every
  other range string fails with the invalid-range error.
\<close>

theorem get_history_points:
  assumes "map_of cities city = Some cd"
  shows "(\<exists>pts. get_history cities city ''24h'' now z = Inr pts \<and> length pts = 25) \<and>
         (\<exists>pts. get_history cities city ''7d'' now z = Inr pts \<and> length pts = 8) \<and>
         (\<forall>r. r \<noteq> ''24h'' \<and> r \<noteq> ''7d'' \<longrightarrow>
              get_history cities city r now z = Inl (InvalidRange r))"
proof (intro conjI allI impI)
  show "\<exists>pts. get_history cities city ''24h'' now z = Inr pts \<and> length pts = 25"
    using assms by (rule get_history_24h)
  show "\<exists>pts. get_history cities city ''7d'' now z = Inr pts \<and> length pts = 8"
    using assms by (rule get_history_7d)
  fix r assume r: "r \<noteq> ''24h'' \<and> r \<noteq> ''7d''"
  show "get_history cities city r now z = Inl (InvalidRange r)"
    using assms conjunct1 [OF r] conjunct2 [OF r] by (rule get_history_invalid)
qed

lemma delhi_configured:
  "map_of init_cities ''Delhi'' =
      Some \<lparr>lat = 28.6139, lng = 77.2090, baseline_aqi = 250, variance = 50,
            seasonal_factor = 1.3\<rparr>"
  by (simp add: init_cities_def)

theorem get_history_points_witness:
  "(\<exists>pts. get_history init_cities ''Delhi'' ''24h'' example_now zero_noise = Inr pts \<and>
          length pts = 25) \<and>
   (\<exists>pts. get_history init_cities ''Delhi'' ''7d'' example_now zero_noise = Inr pts \<and>
          length pts = 8) \<and>
   get_history init_cities ''Delhi'' ''30m'' example_now zero_noise
     = Inl (InvalidRange ''30m'')"
proof -
  note t = get_history_points [OF delhi_configured, of example_now zero_noise]
  have n: "''30m'' \<noteq> ''24h'' \<and> ''30m'' \<noteq> ''7d''" by simp
  have i: "get_history init_cities ''Delhi'' ''30m'' example_now zero_noise
     = Inl (InvalidRange ''30m'')"
    by (rule mp [OF spec [OF conjunct2 [OF conjunct2 [OF t]]] n])
  show ?thesis
    using conjunct1 [OF t] conjunct1 [OF conjunct2 [OF t]] i by (intro conjI)
qed

subsection \<open>The leaderboard\<close>

lemma mset_sort_reverse: "mset (sort_reverse f xs) = mset xs"
  by (simp add: sort_reverse_def)

lemma length_sort_reverse: "length (sort_reverse f xs) = length xs"
  by (simp add: sort_reverse_def)

lemma sort_reverse_descending:
  "sorted_wrt (\<lambda>a b. f b \<le> f a) (sort_reverse f xs)"
proof -
  have "sorted (map f (sort_key f (rev xs)))" by (rule sorted_sort_key)
  then have "sorted_wrt (\<lambda>a b. f a \<le> f b) (sort_key f (rev xs))"
    by (simp add: sorted_wrt_map)
  then show ?thesis
    by (simp add: sort_reverse_def sorted_wrt_rev)
qed

lemma sort_reverse_stable:
  "filter (\<lambda>y. f y = k) (sort_reverse f xs) = filter (\<lambda>y. f y = k) xs"
proof -
  have "filter (\<lambda>y. f y = k) (sort_reverse f xs) =
        rev (filter (\<lambda>y. f y = k) (sort_key f (rev xs)))"
    by (simp add: sort_reverse_def rev_filter)
  also have "\<dots> = rev (filter (\<lambda>y. f y = k) (rev xs))"
    by (simp only: sort_key_stable)
  also have "\<dots> = filter (\<lambda>y. f y = k) xs"
    by (simp add: rev_filter)
  finally show ?thesis .
qed

lemma collect_cities_names:
  "map c_name (collect_cities_data cities now z) = map fst cities"
proof -
  have "map c_name (collect_cities_data cities now z) =
        map (fst \<circ> snd) (enumerate 0 cities)"
    by (simp add: collect_cities_data_def Let_def comp_def split_beta)
  also have "\<dots> = map fst (map snd (enumerate 0 cities))"
    by (simp only: map_map)
  finally show ?thesis by simp
qed

text \<open>
  Claim C9. \<^verbatim>\<open>get_all_cities\<close> builds one snapshot per configured city, in the
  order of the configuration, and returns a rearrangement of exactly these snapshots
  (ten for the configuration of the source), sorted by AQI in descending order; the
  snapshots of any one AQI value keep the order they were built in, that is, ties are
  in the insertion order of the city configuration.
\<close>

theorem get_all_cities_sorted:
  "map c_name (collect_cities_data cities now z) = map fst cities \<and>
   mset (get_all_cities cities now z) = mset (collect_cities_data cities now z) \<and>
   mset (map c_name (get_all_cities cities now z)) = mset (map fst cities) \<and>
   length (get_all_cities cities now z) = length cities \<and>
   sorted_wrt (\<lambda>a b. c_aqi b \<le> c_aqi a) (get_all_cities cities now z) \<and>
   (\<forall>k. filter (\<lambda>s. c_aqi s = k) (get_all_cities cities now z) =
        filter (\<lambda>s. c_aqi s = k) (collect_cities_data cities now z)) \<and>
   length (get_all_cities init_cities now z) = 10"
proof -
  let ?u = "collect_cities_data cities now z"
  have m: "mset (get_all_cities cities now z) = mset ?u"
    by (simp add: get_all_cities_def mset_sort_reverse)
  have "mset (map c_name (get_all_cities cities now z)) = mset (map c_name ?u)"
    using m by (simp only: mset_map)
  then have n: "mset (map c_name (get_all_cities cities now z)) = mset (map fst cities)"
    by (simp only: collect_cities_names)
  have l: "length (get_all_cities cities' now z) = length cities'" for cities'
    by (simp add: get_all_cities_def length_sort_reverse collect_cities_data_def)
  have s: "sorted_wrt (\<lambda>a b. c_aqi b \<le> c_aqi a) (get_all_cities cities now z)"
    unfolding get_all_cities_def by (rule sort_reverse_descending)
  have t: "\<forall>k. filter (\<lambda>s. c_aqi s = k) (get_all_cities cities now z) =
        filter (\<lambda>s. c_aqi s = k) ?u"
    unfolding get_all_cities_def by (simp only: sort_reverse_stable) simp
  have ten: "length init_cities = 10" by (simp add: init_cities_def)
  show ?thesis
    using collect_cities_names [of cities now z] m n l [of cities] l [of init_cities] s t ten
    by (simp only:) simp
qed

end
